theory Spec2Isabelle
  imports Main "HOL-Library.Word"
begin

section \<open>Go values shared by every generation of the client\<close>

text \<open>
  A Go \<^verbatim>\<open>error\<close> value is modelled by the message it carries: \<^verbatim>\<open>errors.New(msg)\<close>
  and \<^verbatim>\<open>fmt.Errorf\<close> build one, \<^verbatim>\<open>err.Error()\<close> reads the message back. A nil
  error is \<open>None\<close> of \<open>error option\<close>. A Go result pair \<^verbatim>\<open>(T, error)\<close> is a HOL pair,
  since several operations return a value and an error together. Slices are lists, the
  nil slice being the empty list; \<^verbatim>\<open>[]byte\<close> and \<^verbatim>\<open>string\<close> are both \<open>string\<close>.
\<close>

datatype error = errors_New string

fun Error :: "error \<Rightarrow> string" where
  "Error (errors_New msg) = msg"

type_synonym int64 = "64 word"

subsection \<open>Decimal rendering of \<^verbatim>\<open>%d\<close>\<close>

fun digits :: "nat \<Rightarrow> string" where
  "digits n = (if n < 10 then [''0123456789'' ! n]
               else digits (n div 10) @ [''0123456789'' ! (n mod 10)])"

declare digits.simps [simp del]

definition fmt_d :: "int \<Rightarrow> string" where
  "fmt_d i = (if i < 0 then CHR ''-'' # digits (nat (- i)) else digits (nat i))"

section \<open>The response envelope and its error formatter (backend.go)\<close>

record responseErrorLocation =
  Line :: int
  Column :: int

record responseError =
  Message :: string
  Locations :: "responseErrorLocation list"

record responseBase =
  Errors :: "responseError list"

text \<open>
  \<^verbatim>\<open>responseBase\<close> is embedded into the response struct of each operation, which adds
  its \<^verbatim>\<open>Data\<close>; the method \<^verbatim>\<open>Error\<close> is promoted to those structs, so it is defined on
  every extension of the record.
\<close>

record 'd response = responseBase +
  Data :: 'd

text \<open>
  The \<^verbatim>\<open>default\<close> branch of the switch: \<^verbatim>\<open>for i, l := range e.Locations\<close>, with the
  index \<open>i\<close> and the message built so far passed along.
\<close>

fun range_Locations :: "nat \<Rightarrow> responseErrorLocation list \<Rightarrow> string \<Rightarrow> string" where
  "range_Locations i [] msg = msg"
| "range_Locations i (l # ls) msg =
     range_Locations (Suc i) ls
       ((if i > 0 then msg @ '', '' else msg) @ fmt_d (Line l) @ '':'' @ fmt_d (Column l))"

definition responseBase_Error :: "'a responseBase_scheme \<Rightarrow> error option" where
  "responseBase_Error rb =
     (if length (Errors rb) = 0 then None
      else
        let e = hd (Errors rb);
            msg = Message e;
            msg = (case Locations e of
                     [] \<Rightarrow> msg
                   | [l] \<Rightarrow> msg @ '', location: '' @ fmt_d (Line l) @ '':'' @ fmt_d (Column l)
                   | _ \<Rightarrow> range_Locations 0 (Locations e) (msg @ '', locations: ''));
            msg = (if length (Errors rb) > 1
                   then fmt_d (int (length (Errors rb))) @ '' errors occurred, first one is: '' @ msg
                   else msg)
        in Some (errors_New msg))"

subsection \<open>The reference definition, written from the specification's five cases\<close>

definition render_location :: "responseErrorLocation \<Rightarrow> string" where
  "render_location l = fmt_d (Line l) @ '':'' @ fmt_d (Column l)"

fun comma_separated :: "string list \<Rightarrow> string" where
  "comma_separated [] = []"
| "comma_separated [s] = s"
| "comma_separated (s # t # ss) = s @ '', '' @ comma_separated (t # ss)"

definition format_first_spec :: "responseError \<Rightarrow> string" where
  "format_first_spec e =
     (case Locations e of
        [] \<Rightarrow> Message e
      | [l] \<Rightarrow> Message e @ '', location: '' @ render_location l
      | ls \<Rightarrow> Message e @ '', locations: '' @ comma_separated (map render_location ls))"

definition extractError_spec :: "responseError list \<Rightarrow> error option" where
  "extractError_spec errs =
     (case errs of
        [] \<Rightarrow> None
      | [e] \<Rightarrow> Some (errors_New (format_first_spec e))
      | e # _ \<Rightarrow> Some (errors_New (fmt_d (int (length errs)) @
                   '' errors occurred, first one is: '' @ format_first_spec e)))"

section \<open>Result types of the operations\<close>

text \<open>
  \<^verbatim>\<open>decimal.Decimal\<close> is a struct of a \<^verbatim>\<open>*big.Int\<close> and an \<^verbatim>\<open>int32\<close> exponent; its zero
  value has a nil pointer and exponent 0.
\<close>

record Decimal =
  dec_value :: "int option"
  dec_exp :: "32 word"



record Order =
  ID :: int64
  Status :: string
  Amount :: Decimal
  Price :: Decimal
  DealMoney :: Decimal
  DealStock :: Decimal
  Left :: Decimal


record Ticker =
  Market :: string
  Last :: Decimal
  ChangeLast :: Decimal

section \<open>The transport\<close>

text \<open>
  \<^verbatim>\<open>request.Variables\<close> is an \<^verbatim>\<open>interface{}\<close>: the variables structs of the operations
  modelled below, nil, or any other Go value (named here by a description).
\<close>

datatype variables =
    nil_variables
  | AccountsRequest "string list"
  | orderRequestVariables int64
  | tickersRequestVariables "string list"
  | other_variables string

record request =
  Query :: string
  Variables :: variables

record http_Request =
  Method :: string
  URL :: string
  Header :: "string \<rightharpoonup> string"
  Body :: string

text \<open>
  Of a response the transport reads the status code, the status text, and the body
  through \<^verbatim>\<open>ioutil.ReadAll\<close>, whose outcome is the field \<open>ReadAll\<close>.
\<close>

record http_Response =
  StatusCode :: int
  Status :: string
  ReadAll :: "error + string"

text \<open>
  What a call reaches outside the client is a parameter of the model: the JSON encoder,
  the URL parser behind \<^verbatim>\<open>http.NewRequest\<close>, the macaroon library (with the clock
  behind \<^verbatim>\<open>auth.AddCurrentTime\<close>) and the network. \<open>'m\<close> is the macaroon type; a
  \<^verbatim>\<open>*macaroon.Macaroon\<close> is an \<open>'m option\<close>, nil being \<open>None\<close>. A library call
  returning \<^verbatim>\<open>(v, err)\<close> is a sum: the code reads \<open>v\<close> only when \<open>err\<close> is nil.
\<close>

record 'm env =
  json_Marshal :: "request \<Rightarrow> error + string"
  url_Parse :: "string \<Rightarrow> error option"
  auth_DecodeMacaroon :: "string \<Rightarrow> error + 'm option"
  auth_AddNonce :: "'m option \<Rightarrow> int64 \<Rightarrow> error + 'm option"
  auth_AddCurrentTime :: "'m option \<Rightarrow> error + 'm option"
  auth_EncodeMacaroon :: "'m option \<Rightarrow> error + string"
  http_Client_Do :: "http_Request \<Rightarrow> error + http_Response"

text \<open>
  The effects of a call that the claims speak about are returned as a trace: the nonce
  handed to \<^verbatim>\<open>auth.AddNonce\<close>, and the request handed to \<^verbatim>\<open>http.Client.Do\<close>.
\<close>

datatype event = called_AddNonce int64 | called_Do http_Request

definition http_StatusOK :: int where
  "http_StatusOK = 200"

definition http_NewRequest :: "'m env \<Rightarrow> string \<Rightarrow> string \<Rightarrow> string \<Rightarrow> error + http_Request" where
  "http_NewRequest env method url body =
     (case url_Parse env url of
        Some err \<Rightarrow> Inl err
      | None \<Rightarrow> Inr \<lparr>Method = method, URL = url, Header = Map.empty, Body = body\<rparr>)"

definition Header_Set :: "http_Request \<Rightarrow> string \<Rightarrow> string \<Rightarrow> http_Request" where
  "Header_Set httpReq key val = httpReq\<lparr>Header := (Header httpReq)(key \<mapsto> val)\<rparr>"

subsection \<open>The bearer-token transport (backend.go)\<close>

record graphqlBackend =
  url :: string
  authToken :: string

definition graphqlBackend_do ::
  "'m env \<Rightarrow> graphqlBackend \<Rightarrow> request \<Rightarrow> graphqlBackend \<times> event list \<times> (string \<times> error option)"
where
  "graphqlBackend_do env c r =
     (case json_Marshal env r of
        Inl err \<Rightarrow>
          (c, [], ([], Some (errors_New (''failed to json.Marshal request: '' @ Error err))))
      | Inr reqJSON \<Rightarrow>
     (case http_NewRequest env ''POST'' (url c) reqJSON of
        Inl err \<Rightarrow>
          (c, [], ([], Some (errors_New (''failed to http.NewRequest: '' @ Error err))))
      | Inr httpReq \<Rightarrow>
          let httpReq = Header_Set httpReq ''Content-Type'' ''application/json'';
              httpReq = Header_Set httpReq ''Authorization'' (''Bearer '' @ authToken c)
          in
     (case http_Client_Do env httpReq of
        Inl err \<Rightarrow>
          (c, [called_Do httpReq],
           ([], Some (errors_New (''failed to do http request: '' @ Error err))))
      | Inr httpResp \<Rightarrow>
          if StatusCode httpResp \<noteq> http_StatusOK then
            (c, [called_Do httpReq],
             ([], Some (errors_New (''unexpected response status: '' @ Status httpResp))))
          else
     (case ReadAll httpResp of
        Inl err \<Rightarrow>
          (c, [called_Do httpReq],
           ([], Some (errors_New (''failed to read response body: '' @ Error err))))
      | Inr body \<Rightarrow> (c, [called_Do httpReq], (body, None))))))"

subsection \<open>The capability-token transport (query_accounts.go)\<close>

record 'm graphQLCore =
  url :: string
  macaroon :: "'m option"
  nonce :: int64
  jwt :: string

text \<open>
  The two branches on \<^verbatim>\<open>c.jwt\<close> either return early (\<open>Inl\<close>) or fall through to the
  send with the headers they have set (\<open>Inr\<close>). \<^verbatim>\<open>c.nonce++\<close> on an \<^verbatim>\<open>int64\<close> wraps
  around, as addition on \<open>64 word\<close> does.
\<close>

definition graphQLCore_do ::
  "'m env \<Rightarrow> 'm graphQLCore \<Rightarrow> request \<Rightarrow> 'm graphQLCore \<times> event list \<times> (string \<times> error option)"
where
  "graphQLCore_do env c r =
     (case json_Marshal env r of
        Inl err \<Rightarrow>
          (c, [], ([], Some (errors_New (''failed to json.Marshal request: '' @ Error err))))
      | Inr reqJSON \<Rightarrow>
     (case http_NewRequest env ''POST'' (url c) reqJSON of
        Inl err \<Rightarrow>
          (c, [], ([], Some (errors_New (''failed to http.NewRequest: '' @ Error err))))
      | Inr httpReq \<Rightarrow>
     (case
        (if jwt c = [] then
           let c = c\<lparr>nonce := nonce c + 1\<rparr> in
           (case auth_AddNonce env (macaroon c) (nonce c) of
              Inl err \<Rightarrow>
                Inl (c, [called_AddNonce (nonce c)],
                     errors_New (''failed to add nonce to macaroon: '' @ Error err))
            | Inr m \<Rightarrow>
           (case auth_AddCurrentTime env m of
              Inl err \<Rightarrow>
                Inl (c, [called_AddNonce (nonce c)],
                     errors_New (''failed to add current time to macaroon: '' @ Error err))
            | Inr m \<Rightarrow>
           (case auth_EncodeMacaroon env m of
              Inl err \<Rightarrow>
                Inl (c, [called_AddNonce (nonce c)],
                     errors_New (''failed to encode macaroon: '' @ Error err))
            | Inr token \<Rightarrow>
                let httpReq = Header_Set httpReq ''Content-Type'' ''application/json'';
                    httpReq = Header_Set httpReq ''Authorization'' (''Macaroon '' @ token)
                in Inr (c, [called_AddNonce (nonce c)], httpReq))))
         else
           Inr (c, [], Header_Set httpReq ''Authorization'' (''Bearer '' @ jwt c)))
      of
        Inl (c, evs, err) \<Rightarrow> (c, evs, ([], Some err))
      | Inr (c, evs, httpReq) \<Rightarrow>
     (case http_Client_Do env httpReq of
        Inl err \<Rightarrow>
          (c, evs @ [called_Do httpReq],
           ([], Some (errors_New (''failed to do http request: '' @ Error err))))
      | Inr httpResp \<Rightarrow>
          if StatusCode httpResp \<noteq> http_StatusOK then
            (c, evs @ [called_Do httpReq],
             ([], Some (errors_New (''unexpected response status: '' @ Status httpResp))))
          else
     (case ReadAll httpResp of
        Inl err \<Rightarrow>
          (c, evs @ [called_Do httpReq],
           ([], Some (errors_New (''failed to read response body: '' @ Error err))))
      | Inr body \<Rightarrow> (c, evs @ [called_Do httpReq], (body, None)))))))"

subsection \<open>The paths through the transport, named for the proofs\<close>

text \<open>
  The requests each branch hands to \<^verbatim>\<open>http.Client.Do\<close>, and what the lines after the
  send (the same in both transports) return for each outcome of the send.
\<close>

definition bearer_request :: "graphqlBackend \<Rightarrow> string \<Rightarrow> http_Request" where
  "bearer_request b j =
     \<lparr>Method = ''POST'', URL = graphqlBackend.url b,
      Header = [''Content-Type'' \<mapsto> ''application/json'',
                ''Authorization'' \<mapsto> ''Bearer '' @ authToken b],
      Body = j\<rparr>"

definition macaroon_request :: "'m graphQLCore \<Rightarrow> string \<Rightarrow> string \<Rightarrow> http_Request" where
  "macaroon_request c j token =
     \<lparr>Method = ''POST'', URL = url c,
      Header = [''Content-Type'' \<mapsto> ''application/json'',
                ''Authorization'' \<mapsto> ''Macaroon '' @ token],
      Body = j\<rparr>"

definition jwt_request :: "'m graphQLCore \<Rightarrow> string \<Rightarrow> http_Request" where
  "jwt_request c j =
     \<lparr>Method = ''POST'', URL = url c,
      Header = [''Authorization'' \<mapsto> ''Bearer '' @ jwt c],
      Body = j\<rparr>"

definition received :: "error + http_Response \<Rightarrow> string \<times> error option" where
  "received x =
     (case x of
        Inl err \<Rightarrow> ([], Some (errors_New (''failed to do http request: '' @ Error err)))
      | Inr resp \<Rightarrow>
          if StatusCode resp \<noteq> 200
          then ([], Some (errors_New (''unexpected response status: '' @ Status resp)))
          else (case ReadAll resp of
                  Inl err \<Rightarrow>
                    ([], Some (errors_New (''failed to read response body: '' @ Error err)))
                | Inr body \<Rightarrow> (body, None)))"

subsection \<open>A test double of the environment\<close>

text \<open>
  After the mock server of the tests: every request is answered with a preset status and
  body. Macaroons are strings here, a caveat being appended text; a nil macaroon is
  refused, and only the text \<open>0201\<close> decodes.
\<close>

definition mock_env :: "int \<Rightarrow> string \<Rightarrow> error + string \<Rightarrow> string env" where
  "mock_env code status body =
     \<lparr>json_Marshal = (\<lambda>r. Inr (Query r)),
      url_Parse = (\<lambda>u. None),
      auth_DecodeMacaroon =
        (\<lambda>s. if s = ''0201'' then Inr (Some ''root'')
             else Inl (errors_New ''invalid macaroon'')),
      auth_AddNonce =
        (\<lambda>m n. case m of None \<Rightarrow> Inl (errors_New ''nil macaroon'')
                | Some s \<Rightarrow> Inr (Some (s @ '' nonce '' @ fmt_d (sint n)))),
      auth_AddCurrentTime =
        (\<lambda>m. case m of None \<Rightarrow> Inl (errors_New ''nil macaroon'')
              | Some s \<Rightarrow> Inr (Some (s @ '' time''))),
      auth_EncodeMacaroon =
        (\<lambda>m. case m of None \<Rightarrow> Inl (errors_New ''nil macaroon'')
              | Some s \<Rightarrow> Inr s),
      http_Client_Do =
        (\<lambda>rq. Inr \<lparr>StatusCode = code, Status = status, ReadAll = body\<rparr>)\<rparr>"

text \<open>The same, with a request whose variables \<^verbatim>\<open>json.Marshal\<close> cannot encode.\<close>

definition unserializable_env :: "string env" where
  "unserializable_env =
     (mock_env 200 ''200 OK'' (Inr ''response body''))
       \<lparr>json_Marshal := (\<lambda>r. Inl (errors_New ''json: unsupported type: chan int''))\<rparr>"

subsection \<open>Instances used to run the transports\<close>

definition test_backend :: graphqlBackend where
  "test_backend =
     \<lparr>graphqlBackend.url = ''http://exchange/query'', authToken = ''test-auth-token''\<rparr>"

definition test_core :: "string graphQLCore" where
  "test_core =
     \<lparr>url = ''http://exchange/query'', macaroon = Some ''root'', nonce = 0, jwt = []\<rparr>"

definition jwt_core :: "string graphQLCore" where
  "jwt_core =
     \<lparr>url = ''http://exchange/query'', macaroon = None, nonce = 0, jwt = ''token''\<rparr>"

definition test_request :: request where
  "test_request = \<lparr>Query = ''query'', Variables = other_variables ''struct{Var1 string}''\<rparr>"

subsection \<open>Sequences of calls on one instance\<close>

text \<open>
  The nonces of a trace, in the order they were handed to \<^verbatim>\<open>auth.AddNonce\<close>, and a
  run of calls on one \<^verbatim>\<open>graphQLCore\<close>, each call with its request and with the
  environment it meets.
\<close>

fun nonces :: "event list \<Rightarrow> int64 list" where
  "nonces [] = []"
| "nonces (called_AddNonce n # evs) = n # nonces evs"
| "nonces (called_Do rq # evs) = nonces evs"

fun do_calls :: "('m env \<times> request) list \<Rightarrow> 'm graphQLCore \<Rightarrow> 'm graphQLCore \<times> event list" where
  "do_calls [] c = (c, [])"
| "do_calls ((env, r) # calls) c =
     (case graphQLCore_do env c r of
        (c', evs, res) \<Rightarrow>
          (case do_calls calls c' of (c'', evs') \<Rightarrow> (c'', evs @ evs')))"

definition three_calls :: "(string env \<times> request) list" where
  "three_calls =
     [(mock_env 200 ''200 OK'' (Inr ''response body''), test_request),
      (unserializable_env, test_request),
      (mock_env 301 ''301 Moved Permanently'' (Inr ''response body''), test_request)]"

definition two_calls :: "(string env \<times> request) list" where
  "two_calls =
     [(mock_env 200 ''200 OK'' (Inr ''response body''), test_request),
      (mock_env 200 ''200 OK'' (Inr ''response body''), test_request)]"

text \<open>The core that \<^verbatim>\<open>NewClient\<close> builds from an empty macaroon and an empty \<^verbatim>\<open>jwt\<close>.\<close>

definition nil_core :: "string graphQLCore" where
  "nil_core =
     \<lparr>url = ''http://exchange/query'', macaroon = None, nonce = 0, jwt = []\<rparr>"

section \<open>The client and its operations\<close>

text \<open>
  \<^verbatim>\<open>Client\<close> embeds the interface \<^verbatim>\<open>core\<close>, so an operation reaches whatever \<^verbatim>\<open>do\<close>
  the core at hand implements: the operations take that \<^verbatim>\<open>do\<close> as a parameter, together
  with the core's state \<open>'c\<close>, and return the state and the trace with their result.
  \<^verbatim>\<open>json.Unmarshal\<close> into the operation's response struct is a parameter too.
\<close>

type_synonym 'c core_do = "'c \<Rightarrow> request \<Rightarrow> 'c \<times> event list \<times> (string \<times> error option)"

record 'c Client =
  core :: 'c

subsection \<open>Construction (the client with macaroon and JWT)\<close>

definition NewClient ::
  "'m env \<Rightarrow> string \<Rightarrow> string \<Rightarrow> string \<Rightarrow> 'm graphQLCore Client option \<times> error option"
where
  "NewClient env url' macaroon' jwt' =
     (if macaroon' \<noteq> [] then
        (case auth_DecodeMacaroon env macaroon' of
           Inl err \<Rightarrow> (None, Some err)
         | Inr m \<Rightarrow>
             (Some \<lparr>core = \<lparr>url = url', macaroon = m, nonce = 0, jwt = jwt'\<rparr>\<rparr>, None))
      else
        (Some \<lparr>core = \<lparr>url = url', macaroon = None, nonce = 0, jwt = jwt'\<rparr>\<rparr>, None))"

subsection \<open>Operations\<close>



definition Tickers_Query :: string where
  "Tickers_Query =
     [CHR 0x0A, CHR 0x09, CHR 0x09] @ ''query GetMarketInfo($markets: [Market!]) {'' @
     [CHR 0x0A, CHR 0x09, CHR 0x09, CHR 0x09] @ ''markets(markets: $markets) {'' @
     [CHR 0x0A, CHR 0x09, CHR 0x09, CHR 0x09, CHR 0x09] @ ''market'' @
     [CHR 0x0A, CHR 0x09, CHR 0x09, CHR 0x09, CHR 0x09] @ ''last'' @
     [CHR 0x0A, CHR 0x09, CHR 0x09, CHR 0x09, CHR 0x09] @ ''changeLast'' @
     [CHR 0x0A, CHR 0x09, CHR 0x09, CHR 0x09] @ ''}'' @
     [CHR 0x0A, CHR 0x09, CHR 0x09] @ ''}'' @
     [CHR 0x0A, CHR 0x09]"



definition Client_Tickers ::
  "'c core_do \<Rightarrow> (string \<Rightarrow> error + Ticker list response) \<Rightarrow> 'c \<Rightarrow> string list
   \<Rightarrow> 'c \<times> event list \<times> (Ticker list \<times> error option)"
where
  "Client_Tickers do json_Unmarshal c markets =
     (if length markets = 0 then
        (c, [], ([], Some (errors_New ''not empty markets expected'')))
      else
        let req = \<lparr>Query = Tickers_Query, Variables = tickersRequestVariables markets\<rparr> in
        case do c req of
          (c, evs, (respJSON, Some err)) \<Rightarrow>
            (c, evs, ([], Some (errors_New (''failed to do request: '' @ Error err))))
        | (c, evs, (respJSON, None)) \<Rightarrow>
       (case json_Unmarshal respJSON of
          Inl err \<Rightarrow>
            (c, evs, ([], Some (errors_New (''failed to json.Unmarshal resp: '' @ Error err))))
        | Inr resp \<Rightarrow>
       (case responseBase_Error resp of
          Some err \<Rightarrow>
            (c, evs, ([], Some (errors_New (''exchange error: '' @ Error err))))
        | None \<Rightarrow> (c, evs, (Data resp, None)))))"

subsection \<open>The mock core of the tests\<close>



subsection \<open>A response with both data and errors\<close>









section \<open>The transport with a per-call authentication flag\<close>

text \<open>
  The operations of the later client call \<^verbatim>\<open>c.do(true, req)\<close> or \<^verbatim>\<open>c.do(false, req)\<close>,
  and the core test calls \<^verbatim>\<open>do(true, \<dots>)\<close> on a \<^verbatim>\<open>graphQLCore\<close>; the source files hold
  no \<^verbatim>\<open>do\<close> with that flag. It is modelled here from sections 3, 4.1, 4.2 and 7 of the
  specification.
\<close>









section \<open>Theorems\<close>

lemma range_Locations_append:
  "range_Locations (Suc i) ls (msg @ s) = msg @ range_Locations (Suc i) ls s"
  by (induction ls arbitrary: i s) simp_all

lemma range_Locations_Suc:
  "ls \<noteq> [] \<Longrightarrow>
   range_Locations (Suc i) ls [] = '', '' @ comma_separated (map render_location ls)"
proof (induction ls arbitrary: i)
  case Nil
  then show ?case by simp
next
  case (Cons l ls)
  show ?case
  proof (cases ls)
    case Nil
    then show ?thesis by (simp add: render_location_def)
  next
    case (Cons l' ls')
    have "range_Locations (Suc i) (l # ls) [] =
          range_Locations (Suc (Suc i)) ls (('', '' @ render_location l) @ [])"
      by (simp add: render_location_def)
    also have "\<dots> = ('', '' @ render_location l) @ range_Locations (Suc (Suc i)) ls []"
      by (rule range_Locations_append)
    also have "\<dots> = ('', '' @ render_location l) @ '', '' @ comma_separated (map render_location ls)"
      using Cons.IH [of "Suc i"] Cons by simp
    finally show ?thesis using Cons by simp
  qed
qed

lemma range_Locations_0:
  "range_Locations 0 (l # ls) msg = msg @ comma_separated (map render_location (l # ls))"
proof (cases ls)
  case Nil
  then show ?thesis by (simp add: render_location_def)
next
  case (Cons l' ls')
  have "range_Locations 0 (l # ls) msg = range_Locations (Suc 0) ls ((msg @ render_location l) @ [])"
    by (simp add: render_location_def)
  also have "\<dots> = (msg @ render_location l) @ range_Locations (Suc 0) ls []"
    by (rule range_Locations_append)
  also have "\<dots> = (msg @ render_location l) @ '', '' @ comma_separated (map render_location ls)"
    using range_Locations_Suc [of ls 0] Cons by simp
  finally show ?thesis using Cons by simp
qed

text \<open>
  C2. The error formatter \<^verbatim>\<open>responseBase.Error\<close> equals the reference definition on
  every list of response errors: no error for the empty list; the message alone, the
  message with \<open>, location: l:c\<close>, or the message with \<open>, locations: \<close> and the
  comma-separated positions in order for one error; and the count prefix before the
  first error's rendering when there are several.
\<close>

theorem responseBase_Error_refines_spec:
  "responseBase_Error rb = extractError_spec (Errors rb)"
proof (cases "Errors rb")
  case Nil
  then show ?thesis by (simp add: responseBase_Error_def extractError_spec_def)
next
  case (Cons e es)
  have first: "(case Locations e of
                  [] \<Rightarrow> Message e
                | [l] \<Rightarrow> Message e @ '', location: '' @ fmt_d (Line l) @ '':'' @ fmt_d (Column l)
                | _ \<Rightarrow> range_Locations 0 (Locations e) (Message e @ '', locations: ''))
               = format_first_spec e"
  proof (cases "Locations e")
    case Nil
    then show ?thesis by (simp add: format_first_spec_def)
  next
    case (Cons l ls)
    show ?thesis
    proof (cases ls)
      case Nil
      with \<open>Locations e = l # ls\<close> show ?thesis
        by (simp add: format_first_spec_def render_location_def)
    next
      case (Cons l' ls')
      with \<open>Locations e = l # ls\<close> show ?thesis
        by (simp add: format_first_spec_def range_Locations_0 del: range_Locations.simps)
    qed
  qed
  show ?thesis
  proof (cases es)
    case Nil
    with Cons first show ?thesis
      by (simp add: responseBase_Error_def extractError_spec_def Let_def)
  next
    case (Cons e' es')
    with \<open>Errors rb = e # es\<close> first show ?thesis
      by (simp add: responseBase_Error_def extractError_spec_def Let_def)
  qed
qed

text \<open>The cases of \<^verbatim>\<open>Test_responseBase_Error\<close>, and a negative number.\<close>

lemma responseBase_Error_tests:
  "responseBase_Error \<lparr>Errors = []\<rparr> = None"
  "responseBase_Error
     \<lparr>Errors = [\<lparr>Message = ''some error'', Locations = [\<lparr>Line = 123, Column = 12\<rparr>]\<rparr>]\<rparr>
   = Some (errors_New ''some error, location: 123:12'')"
  "responseBase_Error
     \<lparr>Errors = [\<lparr>Message = ''some error'',
                 Locations = [\<lparr>Line = 123, Column = 12\<rparr>, \<lparr>Line = 567, Column = 13\<rparr>,
                              \<lparr>Line = 890, Column = 14\<rparr>]\<rparr>]\<rparr>
   = Some (errors_New ''some error, locations: 123:12, 567:13, 890:14'')"
  "responseBase_Error
     \<lparr>Errors = [\<lparr>Message = ''some error'', Locations = [\<lparr>Line = 123, Column = 12\<rparr>]\<rparr>,
                \<lparr>Message = ''second error'', Locations = []\<rparr>]\<rparr>
   = Some (errors_New ''2 errors occurred, first one is: some error, location: 123:12'')"
  "responseBase_Error
     \<lparr>Errors = [\<lparr>Message = ''some error'',
                 Locations = [\<lparr>Line = 123, Column = 12\<rparr>, \<lparr>Line = 567, Column = 13\<rparr>,
                              \<lparr>Line = 890, Column = 14\<rparr>]\<rparr>,
                \<lparr>Message = ''second error'', Locations = []\<rparr>,
                \<lparr>Message = ''third error'', Locations = []\<rparr>]\<rparr>
   = Some (errors_New
       ''3 errors occurred, first one is: some error, locations: 123:12, 567:13, 890:14'')"
  by (simp_all add: responseBase_Error_def fmt_d_def digits.simps)

lemma fmt_d_negative: "fmt_d (- 42) = ''-42''"
  by (simp add: fmt_d_def digits.simps)

subsection \<open>The paths through the bearer-token transport\<close>

lemma backend_Marshal_fails:
  "json_Marshal env r = Inl e \<Longrightarrow>
   graphqlBackend_do env b r =
     (b, [], ([], Some (errors_New (''failed to json.Marshal request: '' @ Error e))))"
  by (simp add: graphqlBackend_do_def)

lemma backend_NewRequest_fails:
  "json_Marshal env r = Inr j \<Longrightarrow> url_Parse env (graphqlBackend.url b) = Some e \<Longrightarrow>
   graphqlBackend_do env b r =
     (b, [], ([], Some (errors_New (''failed to http.NewRequest: '' @ Error e))))"
  by (simp add: graphqlBackend_do_def http_NewRequest_def)

lemma backend_sent:
  "json_Marshal env r = Inr j \<Longrightarrow> url_Parse env (graphqlBackend.url b) = None \<Longrightarrow>
   graphqlBackend_do env b r =
     (b, [called_Do (bearer_request b j)], received (http_Client_Do env (bearer_request b j)))"
  by (simp add: graphqlBackend_do_def http_NewRequest_def Header_Set_def Let_def
        bearer_request_def received_def http_StatusOK_def split: sum.split)

subsection \<open>The paths through the capability-token transport\<close>

lemma core_Marshal_fails:
  "json_Marshal env r = Inl e \<Longrightarrow>
   graphQLCore_do env c r =
     (c, [], ([], Some (errors_New (''failed to json.Marshal request: '' @ Error e))))"
  by (simp add: graphQLCore_do_def)

lemma core_NewRequest_fails:
  "json_Marshal env r = Inr j \<Longrightarrow> url_Parse env (url c) = Some e \<Longrightarrow>
   graphQLCore_do env c r =
     (c, [], ([], Some (errors_New (''failed to http.NewRequest: '' @ Error e))))"
  by (simp add: graphQLCore_do_def http_NewRequest_def)

lemma core_jwt_sent:
  "json_Marshal env r = Inr j \<Longrightarrow> url_Parse env (url c) = None \<Longrightarrow> jwt c \<noteq> [] \<Longrightarrow>
   graphQLCore_do env c r =
     (c, [called_Do (jwt_request c j)], received (http_Client_Do env (jwt_request c j)))"
  by (simp add: graphQLCore_do_def http_NewRequest_def Header_Set_def
        jwt_request_def received_def http_StatusOK_def split: sum.split)

lemma core_AddNonce_fails:
  "json_Marshal env r = Inr j \<Longrightarrow> url_Parse env (url c) = None \<Longrightarrow> jwt c = [] \<Longrightarrow>
   auth_AddNonce env (macaroon c) (nonce c + 1) = Inl e \<Longrightarrow>
   graphQLCore_do env c r =
     (c\<lparr>nonce := nonce c + 1\<rparr>, [called_AddNonce (nonce c + 1)],
      ([], Some (errors_New (''failed to add nonce to macaroon: '' @ Error e))))"
  by (simp add: graphQLCore_do_def http_NewRequest_def Let_def)

lemma core_AddCurrentTime_fails:
  "json_Marshal env r = Inr j \<Longrightarrow> url_Parse env (url c) = None \<Longrightarrow> jwt c = [] \<Longrightarrow>
   auth_AddNonce env (macaroon c) (nonce c + 1) = Inr m \<Longrightarrow>
   auth_AddCurrentTime env m = Inl e \<Longrightarrow>
   graphQLCore_do env c r =
     (c\<lparr>nonce := nonce c + 1\<rparr>, [called_AddNonce (nonce c + 1)],
      ([], Some (errors_New (''failed to add current time to macaroon: '' @ Error e))))"
  by (simp add: graphQLCore_do_def http_NewRequest_def Let_def)

lemma core_EncodeMacaroon_fails:
  "json_Marshal env r = Inr j \<Longrightarrow> url_Parse env (url c) = None \<Longrightarrow> jwt c = [] \<Longrightarrow>
   auth_AddNonce env (macaroon c) (nonce c + 1) = Inr m \<Longrightarrow>
   auth_AddCurrentTime env m = Inr m' \<Longrightarrow> auth_EncodeMacaroon env m' = Inl e \<Longrightarrow>
   graphQLCore_do env c r =
     (c\<lparr>nonce := nonce c + 1\<rparr>, [called_AddNonce (nonce c + 1)],
      ([], Some (errors_New (''failed to encode macaroon: '' @ Error e))))"
  by (simp add: graphQLCore_do_def http_NewRequest_def Let_def)

lemma core_macaroon_sent:
  "json_Marshal env r = Inr j \<Longrightarrow> url_Parse env (url c) = None \<Longrightarrow> jwt c = [] \<Longrightarrow>
   auth_AddNonce env (macaroon c) (nonce c + 1) = Inr m \<Longrightarrow>
   auth_AddCurrentTime env m = Inr m' \<Longrightarrow> auth_EncodeMacaroon env m' = Inr token \<Longrightarrow>
   graphQLCore_do env c r =
     (c\<lparr>nonce := nonce c + 1\<rparr>,
      [called_AddNonce (nonce c + 1), called_Do (macaroon_request c j token)],
      received (http_Client_Do env (macaroon_request c j token)))"
  by (simp add: graphQLCore_do_def http_NewRequest_def Header_Set_def Let_def
        macaroon_request_def received_def http_StatusOK_def split: sum.split)

subsection \<open>Which path a call took, read off its trace\<close>


lemma backend_do_inv:
  assumes "graphqlBackend_do env b r = (b', evs, res)" and "called_Do rq \<in> set evs"
  shows "\<exists>j. json_Marshal env r = Inr j \<and> url_Parse env (graphqlBackend.url b) = None \<and>
             rq = bearer_request b j \<and> res = received (http_Client_Do env rq)"
proof (cases "json_Marshal env r")
  case (Inl e)
  from backend_Marshal_fails [OF Inl, of b] assms show ?thesis by simp
next
  case (Inr j)
  show ?thesis
  proof (cases "url_Parse env (graphqlBackend.url b)")
    case (Some e)
    from backend_NewRequest_fails [OF Inr Some] assms show ?thesis by simp
  next
    case None
    from backend_sent [OF Inr None] assms Inr None show ?thesis by simp
  qed
qed

lemma derive_cases:
  obtains e where "auth_AddNonce env mac n = Inl e"
  | m e where "auth_AddNonce env mac n = Inr m" "auth_AddCurrentTime env m = Inl e"
  | m m' e where "auth_AddNonce env mac n = Inr m" "auth_AddCurrentTime env m = Inr m'"
      "auth_EncodeMacaroon env m' = Inl e"
  | m m' token where "auth_AddNonce env mac n = Inr m" "auth_AddCurrentTime env m = Inr m'"
      "auth_EncodeMacaroon env m' = Inr token"
proof (cases "auth_AddNonce env mac n")
  case (Inl e)
  then show ?thesis using that(1) by blast
next
  case (Inr m)
  note n = this
  show ?thesis
  proof (cases "auth_AddCurrentTime env m")
    case (Inl e)
    then show ?thesis using that(2) n by blast
  next
    case (Inr m')
    note t = this
    show ?thesis
    proof (cases "auth_EncodeMacaroon env m'")
      case (Inl e)
      then show ?thesis using that(3) n t by blast
    next
      case (Inr token)
      then show ?thesis using that(4) n t by blast
    qed
  qed
qed

lemma core_do_inv:
  assumes "graphQLCore_do env c r = (c', evs, res)" and "called_Do rq \<in> set evs"
  shows "\<exists>j. json_Marshal env r = Inr j \<and> url_Parse env (url c) = None \<and>
             res = received (http_Client_Do env rq) \<and>
             (if jwt c = [] then
                \<exists>m m' token.
                  auth_AddNonce env (macaroon c) (nonce c + 1) = Inr m \<and>
                  auth_AddCurrentTime env m = Inr m' \<and>
                  auth_EncodeMacaroon env m' = Inr token \<and>
                  rq = macaroon_request c j token \<and>
                  c' = c\<lparr>nonce := nonce c + 1\<rparr> \<and>
                  evs = [called_AddNonce (nonce c + 1), called_Do rq]
              else rq = jwt_request c j \<and> c' = c \<and> evs = [called_Do rq])"
proof (cases "json_Marshal env r")
  case (Inl e)
  from core_Marshal_fails [OF Inl, of c] assms show ?thesis by simp
next
  case (Inr j)
  show ?thesis
  proof (cases "url_Parse env (url c)")
    case (Some e)
    from core_NewRequest_fails [OF Inr Some] assms show ?thesis by simp
  next
    case None
    show ?thesis
    proof (cases "jwt c = []")
      case False
      from core_jwt_sent [OF Inr None False] assms Inr None False show ?thesis by simp
    next
      case True
      show ?thesis
      proof (cases rule: derive_cases [of env "macaroon c" "nonce c + 1"])
        case (1 e)
        from core_AddNonce_fails [OF Inr None True 1] assms show ?thesis by simp
      next
        case (2 m e)
        from core_AddCurrentTime_fails [OF Inr None True 2] assms show ?thesis by simp
      next
        case (3 m m' e)
        from core_EncodeMacaroon_fails [OF Inr None True 3] assms show ?thesis by simp
      next
        case (4 m m' token)
        from core_macaroon_sent [OF Inr None True 4] assms Inr None True 4 show ?thesis by simp
      qed
    qed
  qed
qed

subsection \<open>The transports run against the test double\<close>

lemma backend_301:
  "graphqlBackend_do (mock_env 301 ''301 Moved Permanently'' (Inr ''response body'')) test_backend test_request
   = (test_backend, [called_Do (bearer_request test_backend ''query'')],
       ([], Some (errors_New ''unexpected response status: 301 Moved Permanently'')))"
  by (simp add: backend_sent [where j = "''query''"] mock_env_def test_backend_def test_request_def received_def)

lemma core_200:
  "graphQLCore_do (mock_env 200 ''200 OK'' (Inr ''response body'')) test_core test_request
   = (test_core\<lparr>nonce := 1\<rparr>,
      [called_AddNonce 1, called_Do (macaroon_request test_core ''query'' ''root nonce 1 time'')],
       (''response body'', None))"
  by (simp add: core_macaroon_sent [where j = "''query''" and m = "Some ''root nonce 1''" and m' = "Some ''root nonce 1 time''" and token = "''root nonce 1 time''"] mock_env_def test_core_def test_request_def received_def fmt_d_def digits.simps)

lemma jwt_200:
  "graphQLCore_do (mock_env 200 ''200 OK'' (Inr ''response body'')) jwt_core test_request
   = (jwt_core, [called_Do (jwt_request jwt_core ''query'')], (''response body'', None))"
  by (simp add: core_jwt_sent [where j = "''query''"] mock_env_def jwt_core_def test_request_def received_def)

text \<open>
  C3. Whenever either transport has sent its request and received a response: a status
  other than 200 makes \<^verbatim>\<open>do\<close> return the error that carries the status text, whatever
  reading the body would give; with status 200, \<^verbatim>\<open>do\<close> returns the body as read and no
  error, and returns an error exactly when reading the body fails.
\<close>

theorem do_status_handling:
  assumes "graphqlBackend_do env b r = (b', evs, res) \<or> graphQLCore_do env c r = (c', evs, res)"
      and "called_Do rq \<in> set evs"
      and "http_Client_Do env rq = Inr resp"
  shows "(StatusCode resp \<noteq> 200 \<longrightarrow>
            res = ([], Some (errors_New (''unexpected response status: '' @ Status resp))))
       \<and> (StatusCode resp = 200 \<longrightarrow>
            (\<forall>body. ReadAll resp = Inr body \<longrightarrow> res = (body, None)) \<and>
            (\<forall>err. ReadAll resp = Inl err \<longrightarrow>
               res = ([], Some (errors_New (''failed to read response body: '' @ Error err)))))"
proof -
  have "res = received (http_Client_Do env rq)"
    using assms(1)
  proof
    assume "graphqlBackend_do env b r = (b', evs, res)"
    from backend_do_inv [OF this assms(2)] show ?thesis by blast
  next
    assume "graphQLCore_do env c r = (c', evs, res)"
    from core_do_inv [OF this assms(2)] show ?thesis by blast
  qed
  with assms(3) show ?thesis by (simp add: received_def)
qed

theorem do_status_handling_witness:
  "graphqlBackend_do (mock_env 301 ''301 Moved Permanently'' (Inr ''response body''))
       test_backend test_request
     = (test_backend, [called_Do (bearer_request test_backend ''query'')],
        ([], Some (errors_New ''unexpected response status: 301 Moved Permanently'')))
   \<and> graphQLCore_do (mock_env 200 ''200 OK'' (Inr ''response body'')) test_core test_request
     = (test_core\<lparr>nonce := 1\<rparr>,
        [called_AddNonce 1,
         called_Do (macaroon_request test_core ''query'' ''root nonce 1 time'')],
        (''response body'', None))"
proof -
  let ?e1 = "mock_env 301 ''301 Moved Permanently'' (Inr ''response body'')"
  let ?e2 = "mock_env 200 ''200 OK'' (Inr ''response body'')"
  let ?rq1 = "bearer_request test_backend ''query''"
  let ?rq2 = "macaroon_request test_core ''query'' ''root nonce 1 time''"
  obtain b' evs1 res1 where run1: "graphqlBackend_do ?e1 test_backend test_request = (b', evs1, res1)"
    by (cases "graphqlBackend_do ?e1 test_backend test_request") blast
  with backend_301 have 1: "b' = test_backend" "evs1 = [called_Do ?rq1]" by simp_all
  have sent1: "called_Do ?rq1 \<in> set evs1" using 1 by simp
  have resp1: "http_Client_Do ?e1 ?rq1
                 = Inr \<lparr>StatusCode = 301, Status = ''301 Moved Permanently'', ReadAll = Inr ''response body''\<rparr>"
    by (simp add: mock_env_def)
  from do_status_handling [OF disjI1 [OF run1] sent1 resp1]
  have res1: "res1 = ([], Some (errors_New ''unexpected response status: 301 Moved Permanently''))"
    by simp
  obtain c' evs2 res2 where run2: "graphQLCore_do ?e2 test_core test_request = (c', evs2, res2)"
    by (cases "graphQLCore_do ?e2 test_core test_request") blast
  with core_200 have 2: "c' = test_core\<lparr>nonce := 1\<rparr>" "evs2 = [called_AddNonce 1, called_Do ?rq2]"
    by simp_all
  have sent2: "called_Do ?rq2 \<in> set evs2" using 2 by simp
  have resp2: "http_Client_Do ?e2 ?rq2
                 = Inr \<lparr>StatusCode = 200, Status = ''200 OK'', ReadAll = Inr ''response body''\<rparr>"
    by (simp add: mock_env_def)
  from do_status_handling [OF disjI2 [OF run2] sent2 resp2]
  have res2: "res2 = (''response body'', None)"
    by simp
  from run1 1 res1 run2 2 res2 show ?thesis by simp
qed

subsection \<open>The headers of a request that is sent\<close>

text \<open>
  C5. With an empty \<^verbatim>\<open>jwt\<close>, once the request is encoded and built and the three
  derivation steps succeed, the capability-token transport sends a POST whose
  Authorization header is \<open>Macaroon\<close>, a space and the token, the token being the
  encoding of the root macaroon with the nonce caveat added first and the current-time
  caveat second. With a \<^verbatim>\<open>jwt\<close>, and in the bearer-token transport, the request sent
  has \<open>Bearer\<close>, a space and the token. Conversely, every request either transport
  sends carries the header so formed.
\<close>

theorem do_authorization_header:
  "(json_Marshal env r = Inr j \<and> url_Parse env (url c) = None \<and> jwt c = [] \<and>
    auth_AddNonce env (macaroon c) (nonce c + 1) = Inr m \<and>
    auth_AddCurrentTime env m = Inr m' \<and> auth_EncodeMacaroon env m' = Inr token \<longrightarrow>
      (\<exists>res. graphQLCore_do env c r =
         (c\<lparr>nonce := nonce c + 1\<rparr>,
          [called_AddNonce (nonce c + 1),
           called_Do \<lparr>Method = ''POST'', URL = url c,
                       Header = [''Content-Type'' \<mapsto> ''application/json'',
                                 ''Authorization'' \<mapsto> ''Macaroon '' @ token],
                       Body = j\<rparr>],
          res)))
   \<and> (json_Marshal env r = Inr j \<and> url_Parse env (url c) = None \<and> jwt c \<noteq> [] \<longrightarrow>
      (\<exists>res. graphQLCore_do env c r =
         (c,
          [called_Do \<lparr>Method = ''POST'', URL = url c,
                       Header = [''Authorization'' \<mapsto> ''Bearer '' @ jwt c],
                       Body = j\<rparr>],
          res)))
   \<and> (json_Marshal env r = Inr j \<and> url_Parse env (graphqlBackend.url b) = None \<longrightarrow>
      (\<exists>res. graphqlBackend_do env b r =
         (b,
          [called_Do \<lparr>Method = ''POST'', URL = graphqlBackend.url b,
                       Header = [''Content-Type'' \<mapsto> ''application/json'',
                                 ''Authorization'' \<mapsto> ''Bearer '' @ authToken b],
                       Body = j\<rparr>],
          res)))
   \<and> (\<forall>c' evs res rq.
         graphQLCore_do env c r = (c', evs, res) \<and> called_Do rq \<in> set evs \<longrightarrow>
           (if jwt c = [] then
              \<exists>m m' token.
                auth_AddNonce env (macaroon c) (nonce c + 1) = Inr m \<and>
                auth_AddCurrentTime env m = Inr m' \<and>
                auth_EncodeMacaroon env m' = Inr token \<and>
                Header rq ''Authorization'' = Some (''Macaroon '' @ token)
            else Header rq ''Authorization'' = Some (''Bearer '' @ jwt c)))
   \<and> (\<forall>b' evs res rq.
         graphqlBackend_do env b r = (b', evs, res) \<and> called_Do rq \<in> set evs \<longrightarrow>
           Header rq ''Authorization'' = Some (''Bearer '' @ authToken b))"
proof (intro conjI allI impI)
  assume "json_Marshal env r = Inr j \<and> url_Parse env (url c) = None \<and> jwt c = [] \<and>
    auth_AddNonce env (macaroon c) (nonce c + 1) = Inr m \<and>
    auth_AddCurrentTime env m = Inr m' \<and> auth_EncodeMacaroon env m' = Inr token"
  then have h: "json_Marshal env r = Inr j" "url_Parse env (url c) = None" "jwt c = []"
    "auth_AddNonce env (macaroon c) (nonce c + 1) = Inr m"
    "auth_AddCurrentTime env m = Inr m'" "auth_EncodeMacaroon env m' = Inr token"
    by simp_all
  from core_macaroon_sent [OF h]
  show "\<exists>res. graphQLCore_do env c r =
         (c\<lparr>nonce := nonce c + 1\<rparr>,
          [called_AddNonce (nonce c + 1),
           called_Do \<lparr>Method = ''POST'', URL = url c,
                       Header = [''Content-Type'' \<mapsto> ''application/json'',
                                 ''Authorization'' \<mapsto> ''Macaroon '' @ token],
                       Body = j\<rparr>],
          res)"
    by (simp add: macaroon_request_def)
next
  assume "json_Marshal env r = Inr j \<and> url_Parse env (url c) = None \<and> jwt c \<noteq> []"
  then have h: "json_Marshal env r = Inr j" "url_Parse env (url c) = None" "jwt c \<noteq> []"
    by simp_all
  from core_jwt_sent [OF h]
  show "\<exists>res. graphQLCore_do env c r =
         (c,
          [called_Do \<lparr>Method = ''POST'', URL = url c,
                       Header = [''Authorization'' \<mapsto> ''Bearer '' @ jwt c],
                       Body = j\<rparr>],
          res)"
    by (simp add: jwt_request_def)
next
  assume "json_Marshal env r = Inr j \<and> url_Parse env (graphqlBackend.url b) = None"
  then have h: "json_Marshal env r = Inr j" "url_Parse env (graphqlBackend.url b) = None"
    by simp_all
  from backend_sent [OF h]
  show "\<exists>res. graphqlBackend_do env b r =
         (b,
          [called_Do \<lparr>Method = ''POST'', URL = graphqlBackend.url b,
                       Header = [''Content-Type'' \<mapsto> ''application/json'',
                                 ''Authorization'' \<mapsto> ''Bearer '' @ authToken b],
                       Body = j\<rparr>],
          res)"
    by (simp add: bearer_request_def)
next
  fix c' evs res rq
  assume "graphQLCore_do env c r = (c', evs, res) \<and> called_Do rq \<in> set evs"
  then have run: "graphQLCore_do env c r = (c', evs, res)" and sent: "called_Do rq \<in> set evs"
    by simp_all
  show "if jwt c = [] then
          \<exists>m m' token.
            auth_AddNonce env (macaroon c) (nonce c + 1) = Inr m \<and>
            auth_AddCurrentTime env m = Inr m' \<and>
            auth_EncodeMacaroon env m' = Inr token \<and>
            Header rq ''Authorization'' = Some (''Macaroon '' @ token)
        else Header rq ''Authorization'' = Some (''Bearer '' @ jwt c)"
  proof (cases "jwt c = []")
    case True
    with core_do_inv [OF run sent]
    obtain j m m' token where
      "auth_AddNonce env (macaroon c) (nonce c + 1) = Inr m"
      "auth_AddCurrentTime env m = Inr m'"
      "auth_EncodeMacaroon env m' = Inr token"
      "rq = macaroon_request c j token"
      by auto
    with True show ?thesis by (auto simp: macaroon_request_def)
  next
    case False
    with core_do_inv [OF run sent]
    obtain j where "rq = jwt_request c j" by auto
    with False show ?thesis by (simp add: jwt_request_def)
  qed
next
  fix b' evs res rq
  assume "graphqlBackend_do env b r = (b', evs, res) \<and> called_Do rq \<in> set evs"
  then have run: "graphqlBackend_do env b r = (b', evs, res)" and sent: "called_Do rq \<in> set evs"
    by simp_all
  from backend_do_inv [OF run sent]
  obtain j where "rq = bearer_request b j" by auto
  then show "Header rq ''Authorization'' = Some (''Bearer '' @ authToken b)"
    by (simp add: bearer_request_def)
qed

theorem do_authorization_header_witness:
  "graphQLCore_do (mock_env 200 ''200 OK'' (Inr ''response body'')) test_core test_request =
     (test_core\<lparr>nonce := 1\<rparr>,
      [called_AddNonce 1,
       called_Do \<lparr>Method = ''POST'', URL = ''http://exchange/query'',
                   Header = [''Content-Type'' \<mapsto> ''application/json'',
                             ''Authorization'' \<mapsto> ''Macaroon root nonce 1 time''],
                   Body = ''query''\<rparr>],
      (''response body'', None))
   \<and> graphQLCore_do (mock_env 200 ''200 OK'' (Inr ''response body'')) jwt_core test_request =
     (jwt_core,
      [called_Do \<lparr>Method = ''POST'', URL = ''http://exchange/query'',
                   Header = [''Authorization'' \<mapsto> ''Bearer token''],
                   Body = ''query''\<rparr>],
      (''response body'', None))
   \<and> graphqlBackend_do (mock_env 301 ''301 Moved Permanently'' (Inr ''response body''))
       test_backend test_request =
     (test_backend,
      [called_Do \<lparr>Method = ''POST'', URL = ''http://exchange/query'',
                   Header = [''Content-Type'' \<mapsto> ''application/json'',
                             ''Authorization'' \<mapsto> ''Bearer test-auth-token''],
                   Body = ''query''\<rparr>],
      ([], Some (errors_New ''unexpected response status: 301 Moved Permanently'')))"
proof -
  let ?e1 = "mock_env 301 ''301 Moved Permanently'' (Inr ''response body'')"
  let ?e2 = "mock_env 200 ''200 OK'' (Inr ''response body'')"
  have m: "json_Marshal ?e2 test_request = Inr ''query''"
          "json_Marshal ?e1 test_request = Inr ''query''"
    by (simp_all add: mock_env_def test_request_def)
  have a: "json_Marshal ?e2 test_request = Inr ''query'' \<and>
           url_Parse ?e2 (url test_core) = None \<and> jwt test_core = [] \<and>
           auth_AddNonce ?e2 (macaroon test_core) (nonce test_core + 1) = Inr (Some ''root nonce 1'') \<and>
           auth_AddCurrentTime ?e2 (Some ''root nonce 1'') = Inr (Some ''root nonce 1 time'') \<and>
           auth_EncodeMacaroon ?e2 (Some ''root nonce 1 time'') = Inr ''root nonce 1 time''"
    using m by (simp add: mock_env_def test_core_def fmt_d_def digits.simps)
  from do_authorization_header [THEN conjunct1, rule_format, OF a]
  obtain res1 where "graphQLCore_do ?e2 test_core test_request =
     (test_core\<lparr>nonce := nonce test_core + 1\<rparr>,
      [called_AddNonce (nonce test_core + 1),
       called_Do \<lparr>Method = ''POST'', URL = url test_core,
                   Header = [''Content-Type'' \<mapsto> ''application/json'',
                             ''Authorization'' \<mapsto> ''Macaroon '' @ ''root nonce 1 time''],
                   Body = ''query''\<rparr>],
      res1)"
    by blast
  with core_200 have 1: "graphQLCore_do ?e2 test_core test_request =
     (test_core\<lparr>nonce := 1\<rparr>,
      [called_AddNonce 1,
       called_Do \<lparr>Method = ''POST'', URL = ''http://exchange/query'',
                   Header = [''Content-Type'' \<mapsto> ''application/json'',
                             ''Authorization'' \<mapsto> ''Macaroon root nonce 1 time''],
                   Body = ''query''\<rparr>],
      (''response body'', None))"
    by (simp add: test_core_def)
  have b: "json_Marshal ?e2 test_request = Inr ''query'' \<and>
           url_Parse ?e2 (url jwt_core) = None \<and> jwt jwt_core \<noteq> []"
    using m by (simp add: mock_env_def jwt_core_def)
  from do_authorization_header [THEN conjunct2, THEN conjunct1, rule_format, OF b]
  obtain res2 where "graphQLCore_do ?e2 jwt_core test_request =
     (jwt_core,
      [called_Do \<lparr>Method = ''POST'', URL = url jwt_core,
                   Header = [''Authorization'' \<mapsto> ''Bearer '' @ jwt jwt_core],
                   Body = ''query''\<rparr>],
      res2)"
    by blast
  with jwt_200 have 2: "graphQLCore_do ?e2 jwt_core test_request =
     (jwt_core,
      [called_Do \<lparr>Method = ''POST'', URL = ''http://exchange/query'',
                   Header = [''Authorization'' \<mapsto> ''Bearer token''],
                   Body = ''query''\<rparr>],
      (''response body'', None))"
    by (simp add: jwt_core_def)
  have c: "json_Marshal ?e1 test_request = Inr ''query'' \<and>
           url_Parse ?e1 (graphqlBackend.url test_backend) = None"
    using m by (simp add: mock_env_def)
  from do_authorization_header [THEN conjunct2, THEN conjunct2, THEN conjunct1, rule_format, OF c]
  obtain res3 where "graphqlBackend_do ?e1 test_backend test_request =
     (test_backend,
      [called_Do \<lparr>Method = ''POST'', URL = graphqlBackend.url test_backend,
                   Header = [''Content-Type'' \<mapsto> ''application/json'',
                             ''Authorization'' \<mapsto> ''Bearer '' @ authToken test_backend],
                   Body = ''query''\<rparr>],
      res3)"
    by blast
  with backend_301 have 3: "graphqlBackend_do ?e1 test_backend test_request =
     (test_backend,
      [called_Do \<lparr>Method = ''POST'', URL = ''http://exchange/query'',
                   Header = [''Content-Type'' \<mapsto> ''application/json'',
                             ''Authorization'' \<mapsto> ''Bearer test-auth-token''],
                   Body = ''query''\<rparr>],
      ([], Some (errors_New ''unexpected response status: 301 Moved Permanently'')))"
    by (simp add: test_backend_def)
  from 1 2 3 show ?thesis by blast
qed

text \<open>
  C7. Every POST the transport builds should carry \<open>Content-Type: application/json\<close>.
  The capability-token transport sets that header only inside the branch for an empty
  \<^verbatim>\<open>jwt\<close>: run with a \<^verbatim>\<open>jwt\<close>, it sends a POST with the Authorization header and
  without a Content-Type header.
\<close>

theorem jwt_branch_sends_no_Content_Type:
  "graphQLCore_do (mock_env 200 ''200 OK'' (Inr ''response body'')) jwt_core test_request
     = (jwt_core, [called_Do (jwt_request jwt_core ''query'')], (''response body'', None))
   \<and> Method (jwt_request jwt_core ''query'') = ''POST''
   \<and> Header (jwt_request jwt_core ''query'') ''Authorization'' = Some ''Bearer token''
   \<and> Header (jwt_request jwt_core ''query'') ''Content-Type'' = None"
  using jwt_200 by (simp add: jwt_request_def jwt_core_def)

lemma Content_Type_on_the_other_paths:
  assumes "called_Do rq \<in> set evs"
  shows "graphqlBackend_do env b r = (b', evs, res) \<Longrightarrow>
           Header rq ''Content-Type'' = Some ''application/json''"
    and "graphQLCore_do env c r = (c', evs, res) \<Longrightarrow> jwt c = [] \<Longrightarrow>
           Header rq ''Content-Type'' = Some ''application/json''"
    and "graphQLCore_do env c r = (c', evs, res) \<Longrightarrow> jwt c \<noteq> [] \<Longrightarrow>
           Header rq ''Content-Type'' = None"
proof -
  show "graphqlBackend_do env b r = (b', evs, res) \<Longrightarrow>
           Header rq ''Content-Type'' = Some ''application/json''"
    using backend_do_inv [OF _ assms] by (fastforce simp: bearer_request_def)
  show "graphQLCore_do env c r = (c', evs, res) \<Longrightarrow> jwt c = [] \<Longrightarrow>
           Header rq ''Content-Type'' = Some ''application/json''"
    using core_do_inv [OF _ assms] by (fastforce simp: macaroon_request_def)
  show "graphQLCore_do env c r = (c', evs, res) \<Longrightarrow> jwt c \<noteq> [] \<Longrightarrow>
           Header rq ''Content-Type'' = None"
    using core_do_inv [OF _ assms] by (fastforce simp: jwt_request_def)
qed

subsection \<open>The nonce counter\<close>

lemma nonces_append: "nonces (evs @ evs') = nonces evs @ nonces evs'"
  by (induction evs rule: nonces.induct) simp_all

lemma set_nonces: "n \<in> set (nonces evs) \<longleftrightarrow> called_AddNonce n \<in> set evs"
  by (induction evs rule: nonces.induct) auto

lemma core_do_step:
  assumes "graphQLCore_do env c r = (c', evs, res)" and "jwt c = []"
  shows "if (\<exists>j. json_Marshal env r = Inr j) \<and> url_Parse env (url c) = None
         then c' = c\<lparr>nonce := nonce c + 1\<rparr> \<and> nonces evs = [nonce c + 1]
         else c' = c \<and> nonces evs = []"
proof (cases "json_Marshal env r")
  case (Inl e)
  from core_Marshal_fails [OF Inl, of c] assms Inl show ?thesis by simp
next
  case (Inr j)
  show ?thesis
  proof (cases "url_Parse env (url c)")
    case (Some e)
    from core_NewRequest_fails [OF Inr Some] assms Some show ?thesis by simp
  next
    case None
    note empty = assms(2)
    show ?thesis
    proof (cases rule: derive_cases [of env "macaroon c" "nonce c + 1"])
      case (1 e)
      from core_AddNonce_fails [OF Inr None empty 1] assms Inr None show ?thesis by simp
    next
      case (2 m e)
      from core_AddCurrentTime_fails [OF Inr None empty 2] assms Inr None show ?thesis by simp
    next
      case (3 m m' e)
      from core_EncodeMacaroon_fails [OF Inr None empty 3] assms Inr None show ?thesis by simp
    next
      case (4 m m' token)
      from core_macaroon_sent [OF Inr None empty 4] assms Inr None show ?thesis by simp
    qed
  qed
qed

lemma core_do_step_cases:
  assumes "graphQLCore_do env c r = (c', evs, res)" and "jwt c = []"
  shows "(c' = c \<and> nonces evs = []) \<or>
         (c' = c\<lparr>nonce := nonce c + 1\<rparr> \<and> nonces evs = [nonce c + 1])"
  using core_do_step [OF assms] by (auto split: if_splits)

lemma sint_succ_int64:
  fixes x :: int64
  assumes "sint x < 2 ^ 63 - 1"
  shows "sint (x + 1) = sint x + 1"
proof -
  have lo: "- (2 ^ 63) \<le> sint x" using sint_ge [of x] by simp
  have "sint (x + 1) = signed_take_bit 63 (sint x + 1)"
    by (simp add: sint_word_ariths)
  also have "\<dots> = sint x + 1"
    using lo assms by (intro signed_take_bit_int_eq_self) simp_all
  finally show ?thesis .
qed

lemma do_calls_nonces:
  assumes "do_calls calls c = (c', evs)" and "jwt c = []"
      and "sint (nonce c) + int (length calls) < 2 ^ 63"
  shows "jwt c' = [] \<and> sint (nonce c) \<le> sint (nonce c')
       \<and> sint (nonce c') \<le> sint (nonce c) + int (length calls)
       \<and> sorted_wrt (<) (map sint (nonces evs))
       \<and> (\<forall>x \<in> set (nonces evs). sint (nonce c) < sint x \<and> sint x \<le> sint (nonce c'))"
  using assms
proof (induction calls arbitrary: c c' evs)
  case Nil
  then show ?case by simp
next
  case (Cons call calls)
  obtain env r where call: "call = (env, r)" by (cases call)
  obtain c1 evs1 res1 where step: "graphQLCore_do env c r = (c1, evs1, res1)"
    by (cases "graphQLCore_do env c r")
  obtain c2 evs2 where rest: "do_calls calls c1 = (c2, evs2)"
    by (cases "do_calls calls c1")
  from Cons.prems(1) call step rest have c': "c' = c2" and evs: "evs = evs1 @ evs2"
    by simp_all
  from core_do_step_cases [OF step Cons.prems(2)]
  consider (same) "c1 = c" "nonces evs1 = []"
    | (incr) "c1 = c\<lparr>nonce := nonce c + 1\<rparr>" "nonces evs1 = [nonce c + 1]"
    by blast
  then show ?case
  proof cases
    case same
    have "sint (nonce c1) + int (length calls) < 2 ^ 63"
      using Cons.prems(3) same by simp
    from Cons.IH [OF rest _ this] same Cons.prems(2)
    show ?thesis using c' evs same by (simp add: nonces_append)
  next
    case incr
    have bound: "sint (nonce c) < 2 ^ 63 - 1" using Cons.prems(3) by simp
    have n1: "sint (nonce c1) = sint (nonce c) + 1"
      using incr sint_succ_int64 [OF bound] by simp
    have j1: "jwt c1 = []" using incr Cons.prems(2) by simp
    have "sint (nonce c1) + int (length calls) < 2 ^ 63"
      using Cons.prems(3) n1 by simp
    from Cons.IH [OF rest j1 this]
    have ih: "jwt c2 = []" "sint (nonce c1) \<le> sint (nonce c2)"
      "sint (nonce c2) \<le> sint (nonce c1) + int (length calls)"
      "sorted_wrt (<) (map sint (nonces evs2))"
      "\<forall>x \<in> set (nonces evs2). sint (nonce c1) < sint x \<and> sint x \<le> sint (nonce c2)"
      by simp_all
    have new: "nonces evs = (nonce c + 1) # nonces evs2"
      using evs incr by (simp add: nonces_append)
    have s1: "sint (nonce c + 1) = sint (nonce c) + 1" using n1 incr by simp
    show ?thesis
      unfolding c' new using ih n1 s1 by force
  qed
qed


lemma mock_call:
  "graphQLCore_do (mock_env code status body) (test_core\<lparr>nonce := n\<rparr>) test_request
   = (test_core\<lparr>nonce := n + 1\<rparr>,
      [called_AddNonce (n + 1),
       called_Do (macaroon_request (test_core\<lparr>nonce := n\<rparr>) ''query''
                    (''root nonce '' @ fmt_d (sint (n + 1)) @ '' time''))],
      received (Inr \<lparr>StatusCode = code, Status = status, ReadAll = body\<rparr>))"
proof -
  let ?c = "test_core\<lparr>nonce := n\<rparr>"
  let ?env = "mock_env code status body"
  have 1: "json_Marshal ?env test_request = Inr ''query''"
    by (simp add: mock_env_def test_request_def)
  have 2: "url_Parse ?env (url ?c) = None" by (simp add: mock_env_def)
  have 3: "jwt ?c = []" by (simp add: test_core_def)
  have 4: "auth_AddNonce ?env (macaroon ?c) (nonce ?c + 1)
             = Inr (Some (''root nonce '' @ fmt_d (sint (n + 1))))"
    by (simp add: mock_env_def test_core_def)
  have 5: "auth_AddCurrentTime ?env (Some (''root nonce '' @ fmt_d (sint (n + 1))))
             = Inr (Some (''root nonce '' @ fmt_d (sint (n + 1)) @ '' time''))"
    by (simp add: mock_env_def)
  have 6: "auth_EncodeMacaroon ?env (Some (''root nonce '' @ fmt_d (sint (n + 1)) @ '' time''))
             = Inr (''root nonce '' @ fmt_d (sint (n + 1)) @ '' time'')"
    by (simp add: mock_env_def)
  have 7: "http_Client_Do ?env rq = Inr \<lparr>StatusCode = code, Status = status, ReadAll = body\<rparr>"
    for rq by (simp add: mock_env_def)
  from core_macaroon_sent [OF 1 2 3 4 5 6] show ?thesis by (simp add: 7)
qed

lemma unserializable_call:
  "graphQLCore_do unserializable_env c test_request
   = (c, [], ([], Some (errors_New
        ''failed to json.Marshal request: json: unsupported type: chan int'')))"
  by (simp add: core_Marshal_fails [where e = "errors_New ''json: unsupported type: chan int''"]
        unserializable_env_def)

lemma nonces_three_calls: "nonces (snd (do_calls three_calls test_core)) = [1, 2]"
proof -
  have "test_core = test_core\<lparr>nonce := 0\<rparr>" by (simp add: test_core_def)
  then have "do_calls three_calls test_core = do_calls three_calls (test_core\<lparr>nonce := 0\<rparr>)"
    by simp
  then show ?thesis
    by (simp add: three_calls_def mock_call unserializable_call)
qed

lemma nonces_two_calls_at_the_top:
  "nonces (snd (do_calls two_calls (test_core\<lparr>nonce := 9223372036854775806\<rparr>)))
   = [9223372036854775807, 9223372036854775808]"
  by (simp add: two_calls_def mock_call)

text \<open>
  C1, as amended. On a \<^verbatim>\<open>graphQLCore\<close> with an empty \<^verbatim>\<open>jwt\<close>, a call whose request is
  encoded and built adds exactly one to the nonce counter and hands the new value to
  \<^verbatim>\<open>auth.AddNonce\<close>; a call that fails before that leaves the counter as it was and
  attaches no nonce. So over any sequence of calls that keeps the counter below the
  largest \<^verbatim>\<open>int64\<close>, the attached nonces are strictly increasing and none is reused.
\<close>

theorem nonces_strictly_increasing_below_overflow:
  assumes "jwt c = []"
  shows "(\<forall>env r c' evs res. graphQLCore_do env c r = (c', evs, res) \<longrightarrow>
            (if (\<exists>j. json_Marshal env r = Inr j) \<and> url_Parse env (url c) = None
             then c' = c\<lparr>nonce := nonce c + 1\<rparr> \<and> nonces evs = [nonce c + 1]
             else c' = c \<and> nonces evs = []))
       \<and> (sint (nonce c) + int (length calls) < 2 ^ 63 \<longrightarrow>
            sorted_wrt (<) (map sint (nonces (snd (do_calls calls c)))) \<and>
            distinct (nonces (snd (do_calls calls c))))"
proof (intro conjI allI impI)
  fix env r c' evs res
  assume "graphQLCore_do env c r = (c', evs, res)"
  from core_do_step [OF this assms]
  show "if (\<exists>j. json_Marshal env r = Inr j) \<and> url_Parse env (url c) = None
        then c' = c\<lparr>nonce := nonce c + 1\<rparr> \<and> nonces evs = [nonce c + 1]
        else c' = c \<and> nonces evs = []" .
next
  assume bound: "sint (nonce c) + int (length calls) < 2 ^ 63"
  obtain c' evs where run: "do_calls calls c = (c', evs)" by (cases "do_calls calls c")
  from do_calls_nonces [OF run assms bound]
  have sorted: "sorted_wrt (<) (map sint (nonces evs))" by simp
  then show "sorted_wrt (<) (map sint (nonces (snd (do_calls calls c))))"
    using run by simp
  from sorted have "distinct (map sint (nonces evs))"
    by (simp add: strict_sorted_iff)
  then show "distinct (nonces (snd (do_calls calls c)))"
    using run by (simp add: distinct_map)
qed

theorem nonces_strictly_increasing_below_overflow_witness:
  "jwt test_core = [] \<and> sint (nonce test_core) + int (length three_calls) < 2 ^ 63
   \<and> nonces (snd (do_calls three_calls test_core)) = [1, 2]
   \<and> sorted_wrt (<) (map sint (nonces (snd (do_calls three_calls test_core))))
   \<and> distinct (nonces (snd (do_calls three_calls test_core)))
   \<and> fst (graphQLCore_do (mock_env 200 ''200 OK'' (Inr ''response body'')) test_core test_request)
       = test_core\<lparr>nonce := nonce test_core + 1\<rparr>
   \<and> fst (graphQLCore_do unserializable_env test_core test_request) = test_core"
proof -
  have j: "jwt test_core = []" by (simp add: test_core_def)
  have b: "sint (nonce test_core) + int (length three_calls) < 2 ^ 63"
    by (simp add: test_core_def three_calls_def)
  note inst = nonces_strictly_increasing_below_overflow [OF j, of three_calls]
  note step = inst [THEN conjunct1, rule_format]
  from inst b have seq: "sorted_wrt (<) (map sint (nonces (snd (do_calls three_calls test_core))))"
    "distinct (nonces (snd (do_calls three_calls test_core)))"
    by simp_all
  let ?e = "mock_env 200 ''200 OK'' (Inr ''response body'')"
  obtain c1 evs1 res1 where run1: "graphQLCore_do ?e test_core test_request = (c1, evs1, res1)"
    by (cases "graphQLCore_do ?e test_core test_request")
  have ok: "(\<exists>j. json_Marshal ?e test_request = Inr j) \<and> url_Parse ?e (url test_core) = None"
    by (simp add: mock_env_def)
  from step [OF run1] ok have 1: "c1 = test_core\<lparr>nonce := nonce test_core + 1\<rparr>" by simp
  obtain c2 evs2 res2 where
    run2: "graphQLCore_do unserializable_env test_core test_request = (c2, evs2, res2)"
    by (cases "graphQLCore_do unserializable_env test_core test_request")
  have no: "\<not> ((\<exists>j. json_Marshal unserializable_env test_request = Inr j) \<and>
                 url_Parse unserializable_env (url test_core) = None)"
    by (simp add: unserializable_env_def)
  from step [OF run2] no have 2: "c2 = test_core" by simp
  from j b seq nonces_three_calls run1 1 run2 2 show ?thesis by simp
qed

text \<open>
  The claim without these two conditions fails: a call whose variables cannot be encoded
  does not touch the counter, and at the largest \<^verbatim>\<open>int64\<close> the increment wraps to the
  smallest, so the second nonce attached is below the first.
\<close>

theorem nonce_not_incremented_or_wrapped:
  "fst (graphQLCore_do unserializable_env test_core test_request) = test_core
   \<and> nonces (fst (snd (graphQLCore_do unserializable_env test_core test_request))) = []
   \<and> nonces (snd (do_calls two_calls (test_core\<lparr>nonce := 9223372036854775806\<rparr>)))
       = [9223372036854775807, 9223372036854775808]
   \<and> sint (9223372036854775808 :: int64) < sint (9223372036854775807 :: int64)
   \<and> \<not> sorted_wrt (<) (map sint
         (nonces (snd (do_calls two_calls (test_core\<lparr>nonce := 9223372036854775806\<rparr>)))))"
  by (simp add: unserializable_call nonces_two_calls_at_the_top)

text \<open>
  C4. In the capability-token branch, when adding the nonce caveat, adding the
  current-time caveat or encoding the macaroon fails, \<^verbatim>\<open>do\<close> returns an error that
  carries the failure, sends nothing, and leaves the counter incremented; a later call
  on the instance attaches the next value, never the one the failed call used.
\<close>

theorem failed_derivation_keeps_nonce_incremented:
  assumes "json_Marshal env r = Inr j" and "url_Parse env (url c) = None" and "jwt c = []"
      and "auth_AddNonce env (macaroon c) (nonce c + 1) = Inl e
           \<or> (\<exists>m. auth_AddNonce env (macaroon c) (nonce c + 1) = Inr m \<and>
                  (auth_AddCurrentTime env m = Inl e
                   \<or> (\<exists>m'. auth_AddCurrentTime env m = Inr m' \<and>
                            auth_EncodeMacaroon env m' = Inl e)))"
  shows "(\<exists>msg. graphQLCore_do env c r =
                  (c\<lparr>nonce := nonce c + 1\<rparr>, [called_AddNonce (nonce c + 1)],
                   ([], Some (errors_New (msg @ Error e)))))
       \<and> (\<forall>env' r' c' evs' res' n.
             graphQLCore_do env' (c\<lparr>nonce := nonce c + 1\<rparr>) r' = (c', evs', res') \<longrightarrow>
             called_AddNonce n \<in> set evs' \<longrightarrow> n = nonce c + 1 + 1 \<and> n \<noteq> nonce c + 1)"
proof (rule conjI)
  from assms(4)
  consider (nonce) "auth_AddNonce env (macaroon c) (nonce c + 1) = Inl e"
    | (time) m where "auth_AddNonce env (macaroon c) (nonce c + 1) = Inr m"
        "auth_AddCurrentTime env m = Inl e"
    | (encode) m m' where "auth_AddNonce env (macaroon c) (nonce c + 1) = Inr m"
        "auth_AddCurrentTime env m = Inr m'" "auth_EncodeMacaroon env m' = Inl e"
    by blast
  then show "\<exists>msg. graphQLCore_do env c r =
                  (c\<lparr>nonce := nonce c + 1\<rparr>, [called_AddNonce (nonce c + 1)],
                   ([], Some (errors_New (msg @ Error e))))"
  proof cases
    case nonce
    from core_AddNonce_fails [OF assms(1-3) nonce] show ?thesis by blast
  next
    case time
    from core_AddCurrentTime_fails [OF assms(1-3) time] show ?thesis by blast
  next
    case encode
    from core_EncodeMacaroon_fails [OF assms(1-3) encode] show ?thesis by blast
  qed
next
  show "\<forall>env' r' c' evs' res' n.
          graphQLCore_do env' (c\<lparr>nonce := nonce c + 1\<rparr>) r' = (c', evs', res') \<longrightarrow>
          called_AddNonce n \<in> set evs' \<longrightarrow> n = nonce c + 1 + 1 \<and> n \<noteq> nonce c + 1"
  proof (intro allI impI)
  fix env' :: "'a env" and r' c' evs' res' n
  assume run: "graphQLCore_do env' (c\<lparr>nonce := nonce c + 1\<rparr>) r' = (c', evs', res')"
    and sent: "called_AddNonce n \<in> set evs'"
  have "jwt (c\<lparr>nonce := nonce c + 1\<rparr>) = []" using assms(3) by simp
  from core_do_step_cases [OF run this] sent
  show "n = nonce c + 1 + 1 \<and> n \<noteq> nonce c + 1"
    by (auto simp: set_nonces [symmetric])
  qed
qed

theorem failed_derivation_keeps_nonce_incremented_witness:
  "json_Marshal (mock_env 200 ''200 OK'' (Inr ''response body'')) test_request = Inr ''query''
   \<and> url_Parse (mock_env 200 ''200 OK'' (Inr ''response body'')) (url nil_core) = None
   \<and> jwt nil_core = []
   \<and> auth_AddNonce (mock_env 200 ''200 OK'' (Inr ''response body''))
        (macaroon nil_core) (nonce nil_core + 1) = Inl (errors_New ''nil macaroon'')
   \<and> (\<exists>msg. graphQLCore_do (mock_env 200 ''200 OK'' (Inr ''response body'')) nil_core test_request
          = (nil_core\<lparr>nonce := nonce nil_core + 1\<rparr>, [called_AddNonce (nonce nil_core + 1)],
             ([], Some (errors_New (msg @ Error (errors_New ''nil macaroon''))))))"
proof -
  let ?e = "mock_env 200 ''200 OK'' (Inr ''response body'')"
  have 1: "json_Marshal ?e test_request = Inr ''query''"
    by (simp add: mock_env_def test_request_def)
  have 2: "url_Parse ?e (url nil_core) = None" by (simp add: mock_env_def)
  have 3: "jwt nil_core = []" by (simp add: nil_core_def)
  have 4: "auth_AddNonce ?e (macaroon nil_core) (nonce nil_core + 1)
             = Inl (errors_New ''nil macaroon'')"
    by (simp add: mock_env_def nil_core_def)
  from failed_derivation_keeps_nonce_incremented [OF 1 2 3 disjI1 [OF 4], THEN conjunct1]
    1 2 3 4
  show ?thesis by blast
qed

subsection \<open>Construction\<close>

text \<open>
  C8. For a non-empty macaroon text that \<^verbatim>\<open>auth.DecodeMacaroon\<close> cannot decode,
  \<^verbatim>\<open>NewClient\<close> returns the decoding error and a nil client: no client is built, in
  part or in whole.
\<close>

theorem NewClient_rejects_malformed_macaroon:
  assumes "macaroon' \<noteq> []" and "auth_DecodeMacaroon env macaroon' = Inl err"
  shows "NewClient env url' macaroon' jwt' = (None, Some err)"
  using assms by (simp add: NewClient_def)

theorem NewClient_rejects_malformed_macaroon_witness:
  "''zz'' \<noteq> []
   \<and> auth_DecodeMacaroon (mock_env 200 ''200 OK'' (Inr ''response body'')) ''zz''
       = Inl (errors_New ''invalid macaroon'')
   \<and> NewClient (mock_env 200 ''200 OK'' (Inr ''response body'')) ''http://exchange/query'' ''zz'' []
       = (None, Some (errors_New ''invalid macaroon''))"
proof -
  have 1: "''zz'' \<noteq> []" by simp
  have 2: "auth_DecodeMacaroon (mock_env 200 ''200 OK'' (Inr ''response body'')) ''zz''
             = Inl (errors_New ''invalid macaroon'')"
    by (simp add: mock_env_def)
  from NewClient_rejects_malformed_macaroon [OF 1 2] 1 2 show ?thesis by blast
qed

subsection \<open>Operations\<close>

text \<open>
  C10. \<^verbatim>\<open>Tickers\<close> with no markets returns the error \<open>not empty markets expected\<close> at
  once, whatever core the client has: the result does not depend on the core's \<^verbatim>\<open>do\<close>,
  the trace is empty (nothing was encoded or sent) and the core's state, a nonce
  counter included, is the one it started with.
\<close>

theorem Tickers_empty_markets:
  "Client_Tickers do json_Unmarshal c [] =
     (c, [], ([], Some (errors_New ''not empty markets expected'')))"
  by (simp add: Client_Tickers_def)







subsection \<open>The transport with a per-call authentication flag\<close>











end
